theory Spec2Isabelle
  imports Main
begin

section \<open>Values, errors and arguments\<close>

text \<open>
  A shallow embedding of \<^verbatim>\<open>compress_pickle/compress_pickle.py\<close>: the four entry points
  \<^verbatim>\<open>dump\<close>, \<^verbatim>\<open>dumps\<close>, \<^verbatim>\<open>load\<close> and \<^verbatim>\<open>loads\<close>. Side effects (the file system, the open
  stream objects, the warnings issued) are threaded through an explicit \<open>world\<close>; every
  raise is a value \<open>Inl e\<close>.
\<close>

type_synonym bytes = string
type_synonym handle = nat
type_synonym kwargs = "(string \<times> string) list"

text \<open>The \<^verbatim>\<open>compression\<close> argument is Python's \<^verbatim>\<open>None\<close> or a string.\<close>

datatype compression = PyNone | PyStr string

abbreviation infer :: compression where
  "infer \<equiv> PyStr ''infer''"

text \<open>A keyword argument of a call is either left out or given.\<close>

datatype 'a arg = Omitted | Given 'a

text \<open>The three settings of \<^verbatim>\<open>unhandled_extensions\<close>: "raise", "ignore", "warn".\<close>

datatype policy = Raise | Ignore | Warn

text \<open>
  The first three errors are the ones of the specification's taxonomy; the others are
  the errors of the underlying libraries, which the facade lets through unchanged.
\<close>

datatype error =
    UnknownSchemeError
  | UnrecognizedExtensionError
  | InvalidArgumentError
  | FileNotFoundError
  | ClosedStreamError
  | BadStreamError
  | CorruptDataError
  | PickleError
  | OSError

text \<open>The \<^verbatim>\<open>path\<close> argument: a file system path or an already open stream.\<close>

datatype path_arg = Path string | Stream handle

section \<open>Streams and the world\<close>

text \<open>
  A stream object is either a plain byte stream (an in-memory buffer, or a file object
  when a path is attached) with its contents, position and closed flag, or a codec
  stream wrapping a plain stream: the handle of the wrapped stream, the encoder and
  decoder (both take the name of the archive member, ignored by filters), the member
  name, whether closing it closes the wrapped stream, whether it was opened for
  writing, and its closed flag.

  The world holds the files, the stream objects, the next free handle, the number of
  warnings issued, and which streams refuse what is written to them (a file object on
  a device that has run out of space, say). A stream that has just been created does
  not refuse writes.
\<close>

datatype sobj =
    Plain "string option" bytes nat bool
  | Codec handle "string \<Rightarrow> bytes \<Rightarrow> bytes" "string \<Rightarrow> bytes \<Rightarrow> bytes option" string bool bool
      bool

record world =
  w_files :: "string \<Rightarrow> bytes option"
  w_streams :: "handle \<Rightarrow> sobj option"
  w_next :: handle
  w_warnings :: nat
  w_refuses :: "handle \<Rightarrow> bool"

definition alloc :: "sobj \<Rightarrow> world \<Rightarrow> handle \<times> world" where
  "alloc obj w =
     (w_next w,
      w\<lparr>w_streams := (w_streams w)(w_next w \<mapsto> obj), w_next := Suc (w_next w),
        w_refuses := (w_refuses w)(w_next w := False)\<rparr>)"

definition is_closed :: "world \<Rightarrow> handle \<Rightarrow> bool" where
  "is_closed w h =
     (case w_streams w h of
        None \<Rightarrow> False
      | Some (Plain fp d p c) \<Rightarrow> c
      | Some (Codec u e dc m owns wr c) \<Rightarrow> c)"

definition is_open :: "world \<Rightarrow> handle \<Rightarrow> bool" where
  "is_open w h =
     (case w_streams w h of
        None \<Rightarrow> False
      | Some (Plain fp d p c) \<Rightarrow> \<not> c
      | Some (Codec u e dc m owns wr c) \<Rightarrow> \<not> c)"

definition set_closed :: "handle \<Rightarrow> world \<Rightarrow> world" where
  "set_closed h w =
     (case w_streams w h of
        None \<Rightarrow> w
      | Some (Plain fp d p c) \<Rightarrow> w\<lparr>w_streams := (w_streams w)(h \<mapsto> Plain fp d p True)\<rparr>
      | Some (Codec u e dc m owns wr c) \<Rightarrow>
          w\<lparr>w_streams := (w_streams w)(h \<mapsto> Codec u e dc m owns wr True)\<rparr>)"

text \<open>
  What closing a stream does to the world, whether the call raises or not: the stream
  is closed, and a codec stream that owns the stream it wraps closes that one too.
\<close>

definition close :: "handle \<Rightarrow> world \<Rightarrow> world" where
  "close h w =
     (case w_streams w h of
        Some (Codec u e dc m True wr c) \<Rightarrow> set_closed u (set_closed h w)
      | _ \<Rightarrow> set_closed h w)"

text \<open>
  \<^verbatim>\<open>stream.close()\<close>, the call. An open codec stream that was opened for writing writes
  when it is closed (the trailer of a compressed stream, the directory of an archive):
  when the stream it wraps refuses the write, the call raises, with the world changed
  as above. Closing a plain stream, a stream opened for reading, or a closed stream
  does not raise.
\<close>

definition close_stream :: "handle \<Rightarrow> world \<Rightarrow> (error + unit) \<times> world" where
  "close_stream h w =
     (case w_streams w h of
        Some (Codec u e dc m owns wr c) \<Rightarrow>
          if \<not> c \<and> wr \<and> w_refuses w u then (Inl OSError, close h w)
          else (Inr (), close h w)
      | _ \<Rightarrow> (Inr (), close h w))"

text \<open>
  Writing \<open>b\<close> at position \<open>p\<close>: a position past the end pads with zero bytes. A
  stream that refuses writes raises and is left as it was.
\<close>

definition overwrite :: "bytes \<Rightarrow> nat \<Rightarrow> bytes \<Rightarrow> bytes" where
  "overwrite d p b =
     take p d @ replicate (p - length d) (CHR 0x00) @ b @ drop (p + length b) d"

definition raw_write :: "handle \<Rightarrow> bytes \<Rightarrow> world \<Rightarrow> (error + unit) \<times> world" where
  "raw_write h b w =
     (case w_streams w h of
        Some (Plain fp d p c) \<Rightarrow>
          if c then (Inl ClosedStreamError, w)
          else if w_refuses w h then (Inl OSError, w)
          else
            (let d' = overwrite d p b;
                 w' = w\<lparr>w_streams := (w_streams w)(h \<mapsto> Plain fp d' (p + length b) False)\<rparr>
             in (Inr (),
                 case fp of
                   None \<Rightarrow> w'
                 | Some f \<Rightarrow> w'\<lparr>w_files := (w_files w')(f \<mapsto> d')\<rparr>))
      | _ \<Rightarrow> (Inl BadStreamError, w))"

text \<open>\<^verbatim>\<open>stream.write(b)\<close>: a codec stream hands the encoded bytes to the stream it wraps.\<close>

definition stream_write :: "handle \<Rightarrow> bytes \<Rightarrow> world \<Rightarrow> (error + unit) \<times> world" where
  "stream_write h b w =
     (case w_streams w h of
        None \<Rightarrow> (Inl BadStreamError, w)
      | Some (Plain fp d p c) \<Rightarrow> raw_write h b w
      | Some (Codec u e dc m owns wr c) \<Rightarrow>
          if c then (Inl ClosedStreamError, w) else raw_write u (e m b) w)"

text \<open>\<^verbatim>\<open>arch.writestr(arcname, buff)\<close>: one member written through the archive handle.\<close>

definition writestr :: "handle \<Rightarrow> string option \<Rightarrow> bytes \<Rightarrow> world \<Rightarrow> (error + unit) \<times> world" where
  "writestr a arcname b w =
     (case (w_streams w a, arcname) of
        (Some (Codec u e dc m owns wr c), Some n) \<Rightarrow>
          if c then (Inl ClosedStreamError, w) else raw_write u (e n b) w
      | _ \<Rightarrow> (Inl BadStreamError, w))"

definition raw_read :: "handle \<Rightarrow> world \<Rightarrow> (error + bytes) \<times> world" where
  "raw_read h w =
     (case w_streams w h of
        Some (Plain fp d p c) \<Rightarrow>
          if c then (Inl ClosedStreamError, w)
          else (Inr (drop p d),
                w\<lparr>w_streams := (w_streams w)(h \<mapsto> Plain fp d (max p (length d)) False)\<rparr>)
      | _ \<Rightarrow> (Inl BadStreamError, w))"

text \<open>\<^verbatim>\<open>stream.read()\<close>: everything from the position on, decoded by a codec stream.\<close>

definition read_all :: "handle \<Rightarrow> world \<Rightarrow> (error + bytes) \<times> world" where
  "read_all h w =
     (case w_streams w h of
        None \<Rightarrow> (Inl BadStreamError, w)
      | Some (Plain fp d p c) \<Rightarrow> raw_read h w
      | Some (Codec u e dc m owns wr c) \<Rightarrow>
          if c then (Inl ClosedStreamError, w)
          else
            (case raw_read u w of
               (Inl err, w') \<Rightarrow> (Inl err, w')
             | (Inr b, w') \<Rightarrow>
                 (case dc m b of
                    None \<Rightarrow> (Inl CorruptDataError, w')
                  | Some x \<Rightarrow> (Inr x, w'))))"

text \<open>\<^verbatim>\<open>io.BytesIO(data)\<close> and \<^verbatim>\<open>stream.getvalue()\<close>.\<close>

definition BytesIO :: "bytes \<Rightarrow> world \<Rightarrow> handle \<times> world" where
  "BytesIO d w = alloc (Plain None d 0 False) w"

definition getvalue :: "handle \<Rightarrow> world \<Rightarrow> error + bytes" where
  "getvalue h w =
     (case w_streams w h of
        Some (Plain fp d p c) \<Rightarrow> if c then Inl ClosedStreamError else Inr d
      | _ \<Rightarrow> Inl BadStreamError)"

text \<open>
  \<^verbatim>\<open>open(path, mode)\<close>: a mode starting with \<^verbatim>\<open>r\<close> reads an existing file, any other mode
  creates or truncates the file.
\<close>

definition is_read_mode :: "string \<Rightarrow> bool" where
  "is_read_mode m = (case m of [] \<Rightarrow> False | c # cs \<Rightarrow> c = CHR ''r'')"

definition open_file :: "string \<Rightarrow> string \<Rightarrow> world \<Rightarrow> (error + handle) \<times> world" where
  "open_file p m w =
     (if is_read_mode m then
        (case w_files w p of
           None \<Rightarrow> (Inl FileNotFoundError, w)
         | Some d \<Rightarrow> (let (h, w') = alloc (Plain (Some p) d 0 False) w in (Inr h, w')))
      else
        (let (h, w') = alloc (Plain (Some p) [] 0 False) (w\<lparr>w_files := (w_files w)(p \<mapsto> [])\<rparr>)
         in (Inr h, w')))"

section \<open>The scheme registry and the external libraries\<close>

text \<open>
  How a scheme opens its stream: directly, through a filter with an encoder and a
  decoder, or through an archive whose encoder and decoder take the member name.
\<close>

datatype opener =
    RawOpener
  | FilterOpener "bytes \<Rightarrow> bytes" "bytes \<Rightarrow> bytes option"
  | ArchiveOpener "string \<Rightarrow> bytes \<Rightarrow> bytes" "string \<Rightarrow> bytes \<Rightarrow> bytes option"

record descriptor =
  d_name :: compression
  d_extensions :: "string list"
  d_write_mode :: string
  d_read_mode :: string
  d_opener :: opener

definition is_archive :: "descriptor \<Rightarrow> bool" where
  "is_archive d = (case d_opener d of ArchiveOpener e dc \<Rightarrow> True | _ \<Rightarrow> False)"

text \<open>
  Everything the facade takes from outside \<^verbatim>\<open>compress_pickle.py\<close>: the registry table,
  the scheme used for an unrecognised extension, the helpers on path names, the
  serializer (\<^verbatim>\<open>pickle.dumps\<close>, \<^verbatim>\<open>pickle.loads\<close>) and \<^verbatim>\<open>sys.version_info\<close>.
\<close>

record 'o env =
  registry :: "descriptor list"
  fallback_scheme :: compression
  path_suffix :: "string \<Rightarrow> string"
  set_default_extensions :: "string \<Rightarrow> compression \<Rightarrow> string"
  default_arcname :: "string option \<Rightarrow> string"
  pickle_dumps :: "'o \<Rightarrow> int \<Rightarrow> bool \<Rightarrow> error + bytes"
  pickle_loads :: "bytes \<Rightarrow> bool \<Rightarrow> string \<Rightarrow> string \<Rightarrow> error + 'o"
  version_info :: "nat \<times> nat"

text \<open>
  Modelled from the spec: the registry's \<^verbatim>\<open>lookup(name)\<close> and \<^verbatim>\<open>reverse_lookup(extension)\<close>
  of \<^verbatim>\<open>utils.py\<close>, which is not part of the sources at hand. Lookup is by name; the
  reverse lookup is an exact, case-sensitive match against the accepted extensions,
  the first registered scheme winning.
\<close>

definition lookup :: "descriptor list \<Rightarrow> compression \<Rightarrow> descriptor option" where
  "lookup reg c = find (\<lambda>d. d_name d = c) reg"

definition reverse_lookup :: "descriptor list \<Rightarrow> string \<Rightarrow> compression option" where
  "reverse_lookup reg ext =
     map_option d_name (find (\<lambda>d. ext \<in> set (d_extensions d)) reg)"

text \<open>
  Modelled from the spec: \<^verbatim>\<open>validate_compression(compression, infer_is_valid)\<close> of
  \<^verbatim>\<open>utils.py\<close>. Requesting inference where it is not valid is an InvalidArgumentError; a
  name that is neither "infer" nor registered is an UnknownSchemeError. It is a check:
  the spec gives it no result, and \<^verbatim>\<open>dump\<close>, \<^verbatim>\<open>load\<close> and \<^verbatim>\<open>loads\<close> call it as a
  statement. A call that does not raise returns nothing, which in Python is the value
  \<^verbatim>\<open>None\<close>.
\<close>

definition validate_compression :: "'o env \<Rightarrow> compression \<Rightarrow> bool \<Rightarrow> error + unit" where
  "validate_compression env c infer_is_valid =
     (if c = infer then (if infer_is_valid then Inr () else Inl InvalidArgumentError)
      else if lookup (registry env) c = None then Inl UnknownSchemeError
      else Inr ())"

text \<open>
  Modelled from the spec: \<^verbatim>\<open>get_compression_write_mode\<close> and \<^verbatim>\<open>get_compression_read_mode\<close>
  of \<^verbatim>\<open>utils.py\<close>, the default modes of the scheme's descriptor.
\<close>

definition get_compression_write_mode :: "'o env \<Rightarrow> compression \<Rightarrow> error + string" where
  "get_compression_write_mode env c =
     (case lookup (registry env) c of
        None \<Rightarrow> Inl UnknownSchemeError
      | Some d \<Rightarrow> Inr (d_write_mode d))"

definition get_compression_read_mode :: "'o env \<Rightarrow> compression \<Rightarrow> error + string" where
  "get_compression_read_mode env c =
     (case lookup (registry env) c of
        None \<Rightarrow> Inl UnknownSchemeError
      | Some d \<Rightarrow> Inr (d_read_mode d))"

text \<open>
  Modelled from the spec: the inference step of the path resolver of \<^verbatim>\<open>utils.py\<close>. The
  suffix of the path is looked up; an unrecognised suffix raises, falls back to the raw
  scheme silently, or falls back to it with one warning, as the policy says.
\<close>

definition infer_compression_from_filename ::
  "'o env \<Rightarrow> string \<Rightarrow> policy \<Rightarrow> world \<Rightarrow> (error + compression) \<times> world" where
  "infer_compression_from_filename env p unhandled_extensions w =
     (case reverse_lookup (registry env) (path_suffix env p) of
        Some c \<Rightarrow> (Inr c, w)
      | None \<Rightarrow>
          (case unhandled_extensions of
             Raise \<Rightarrow> (Inl UnrecognizedExtensionError, w)
           | Ignore \<Rightarrow> (Inr (fallback_scheme env), w)
           | Warn \<Rightarrow> (Inr (fallback_scheme env), w\<lparr>w_warnings := Suc (w_warnings w)\<rparr>)))"

text \<open>
  Modelled from the spec: \<^verbatim>\<open>preprocess_path\<close> of \<^verbatim>\<open>utils.py\<close>. A stream is passed on as
  it is, and inference on a stream is an InvalidArgumentError; for a file system path
  the scheme is inferred when asked for, and the path is rewritten to the scheme's
  extension when \<^verbatim>\<open>set_default_extension\<close> is on. The result is the effective path, the
  effective scheme, and the stream, if the input was one.
\<close>

definition preprocess_path ::
  "'o env \<Rightarrow> path_arg \<Rightarrow> compression \<Rightarrow> policy \<Rightarrow> bool \<Rightarrow> world
     \<Rightarrow> (error + (path_arg \<times> compression \<times> handle option)) \<times> world" where
  "preprocess_path env path c unhandled_extensions set_default_extension w =
     (case path of
        Stream s \<Rightarrow>
          if c = infer then (Inl InvalidArgumentError, w)
          else (Inr (path, c, Some s), w)
      | Path p \<Rightarrow>
          (case (if c = infer then infer_compression_from_filename env p unhandled_extensions w
                 else (Inr c, w)) of
             (Inl err, w') \<Rightarrow> (Inl err, w')
           | (Inr c', w') \<Rightarrow>
               (Inr (Path (if set_default_extension then set_default_extensions env p c' else p),
                     c', None), w')))"

text \<open>
  Modelled from the spec: the raw stream under a filter or an archive, as the opener of
  \<^verbatim>\<open>utils.py\<close> gets it: the caller's stream is reused, and then not owned; otherwise the
  file at the path is opened, and owned.
\<close>

definition underlying ::
  "path_arg \<Rightarrow> handle option \<Rightarrow> string \<Rightarrow> world \<Rightarrow> (error + (handle \<times> bool)) \<times> world" where
  "underlying path stream m w =
     (case stream of
        Some s \<Rightarrow> (Inr (s, False), w)
      | None \<Rightarrow>
          (case path of
             Stream s \<Rightarrow> (Inl BadStreamError, w)
           | Path p \<Rightarrow>
               (case open_file p m w of
                  (Inl err, w') \<Rightarrow> (Inl err, w')
                | (Inr h, w') \<Rightarrow> (Inr (h, True), w'))))"

text \<open>
  Modelled from the spec: the name of the archive member is the \<^verbatim>\<open>arcname\<close> option when
  the caller gives one, and is derived from the file name otherwise.
\<close>

definition path_name :: "path_arg \<Rightarrow> string option" where
  "path_name path = (case path of Path p \<Rightarrow> Some p | Stream s \<Rightarrow> None)"

definition member_name :: "'o env \<Rightarrow> kwargs \<Rightarrow> path_arg \<Rightarrow> string" where
  "member_name env kw path =
     (case map_of kw ''arcname'' of
        Some n \<Rightarrow> n
      | None \<Rightarrow> default_arcname env (path_name path))"

text \<open>
  Modelled from the spec: \<^verbatim>\<open>open_compression_stream\<close> of \<^verbatim>\<open>utils.py\<close>. The raw scheme
  opens the file, or hands back the caller's stream, which the facade must then not
  close. A filter opens the raw stream (or reuses the caller's) and wraps it. An archive
  scheme opens the archive handle and one member in it. The result is the stream to
  serialize through, the archive handle, the member name and the ownership flag, which
  is set whenever the stream handed over was opened here.
\<close>

definition open_compression_stream ::
  "'o env \<Rightarrow> path_arg \<Rightarrow> compression \<Rightarrow> handle option \<Rightarrow> string \<Rightarrow> kwargs \<Rightarrow> world
     \<Rightarrow> (error + (handle \<times> handle option \<times> string option \<times> bool)) \<times> world" where
  "open_compression_stream env path c stream m kw w =
     (case lookup (registry env) c of
        None \<Rightarrow> (Inl UnknownSchemeError, w)
      | Some d \<Rightarrow>
          (case d_opener d of
             RawOpener \<Rightarrow>
               (case stream of
                  Some s \<Rightarrow> (Inr (s, None, None, False), w)
                | None \<Rightarrow>
                    (case underlying path stream m w of
                       (Inl err, w') \<Rightarrow> (Inl err, w')
                     | (Inr (h, owns), w') \<Rightarrow> (Inr (h, None, None, True), w')))
           | FilterOpener e dc \<Rightarrow>
               (case underlying path stream m w of
                  (Inl err, w') \<Rightarrow> (Inl err, w')
                | (Inr (u, owns), w') \<Rightarrow>
                    (let (h, w'') = alloc (Codec u (\<lambda>n. e) (\<lambda>n. dc) [] owns (\<not> is_read_mode m) False) w'
                     in (Inr (h, None, None, True), w'')))
           | ArchiveOpener e dc \<Rightarrow>
               (case underlying path stream m w of
                  (Inl err, w') \<Rightarrow> (Inl err, w')
                | (Inr (u, owns), w') \<Rightarrow>
                    (let arcname = member_name env kw path;
                         (a, w2) = alloc (Codec u e dc arcname owns (\<not> is_read_mode m) False) w';
                         (h, w3) = alloc (Codec u e dc arcname False (\<not> is_read_mode m) False) w2
                     in (Inr (h, Some a, Some arcname, True), w3)))))"

section \<open>The serializer on streams\<close>

text \<open>
  \<^verbatim>\<open>pickle.dump(obj, io_stream, ...)\<close> writes what \<^verbatim>\<open>pickle.dumps\<close> returns;
  \<^verbatim>\<open>pickle.load(io_stream, ...)\<close> decodes what the stream holds.
\<close>

definition pickle_dump ::
  "'o env \<Rightarrow> 'o \<Rightarrow> handle \<Rightarrow> int \<Rightarrow> bool \<Rightarrow> world \<Rightarrow> (error + unit) \<times> world" where
  "pickle_dump env obj io_stream protocol fix_imports w =
     (case pickle_dumps env obj protocol fix_imports of
        Inl err \<Rightarrow> (Inl err, w)
      | Inr buff \<Rightarrow> stream_write io_stream buff w)"

definition pickle_load ::
  "'o env \<Rightarrow> handle \<Rightarrow> bool \<Rightarrow> string \<Rightarrow> string \<Rightarrow> world \<Rightarrow> (error + 'o) \<times> world" where
  "pickle_load env io_stream fix_imports encoding errors w =
     (case read_all io_stream w of
        (Inl err, w') \<Rightarrow> (Inl err, w')
      | (Inr b, w') \<Rightarrow> (pickle_loads env b fix_imports encoding errors, w'))"

text \<open>\<^verbatim>\<open>sys.version_info < (3, 6)\<close>, a lexicographic comparison.\<close>

definition before_3_6 :: "nat \<times> nat \<Rightarrow> bool" where
  "before_3_6 v = (case v of (major, minor) \<Rightarrow> major < 3 \<or> (major = 3 \<and> minor < 6))"

section \<open>The facade\<close>

text \<open>
  Lines 93 to 109 of \<^verbatim>\<open>dump\<close>: the transfer inside \<^verbatim>\<open>try\<close>, and the closing of the
  stream and the archive in \<^verbatim>\<open>finally\<close>, which runs whether the transfer raised or not.
  The two closes stand unguarded one after the other: when the first raises, its error
  is what the call raises and the second close is not run; when both go through, the
  call ends as the transfer did.
\<close>

definition dump_transfer ::
  "'o env \<Rightarrow> 'o \<Rightarrow> handle \<Rightarrow> handle option \<Rightarrow> string option \<Rightarrow> bool \<Rightarrow> int \<Rightarrow> bool \<Rightarrow> world
     \<Rightarrow> (error + unit) \<times> world" where
  "dump_transfer env obj io_stream arch arcname must_close protocol fix_imports w =
     (case arch of
        Some a \<Rightarrow>
          (let (r, w') =
                 (if before_3_6 (version_info env) then
                    (case pickle_dumps env obj protocol fix_imports of
                       Inl err \<Rightarrow> (Inl err, w)
                     | Inr buff \<Rightarrow> writestr a arcname buff w)
                  else pickle_dump env obj io_stream protocol fix_imports w)
           in if must_close then
                (case close_stream io_stream w' of
                   (Inl err, w1) \<Rightarrow> (Inl err, w1)
                 | (Inr u, w1) \<Rightarrow>
                     (case close_stream a w1 of
                        (Inl err, w2) \<Rightarrow> (Inl err, w2)
                      | (Inr u, w2) \<Rightarrow> (r, w2)))
              else (r, w'))
      | None \<Rightarrow>
          (let (r, w') = pickle_dump env obj io_stream protocol fix_imports w
           in if must_close then
                (case close_stream io_stream w' of
                   (Inl err, w1) \<Rightarrow> (Inl err, w1)
                 | (Inr u, w1) \<Rightarrow> (r, w1))
              else (r, w')))"

definition dump ::
  "'o env \<Rightarrow> 'o \<Rightarrow> path_arg \<Rightarrow> compression \<Rightarrow> string option \<Rightarrow> int \<Rightarrow> bool \<Rightarrow> policy \<Rightarrow> bool
     \<Rightarrow> kwargs \<Rightarrow> world \<Rightarrow> (error + unit) \<times> world" where
  "dump env obj path c mode protocol fix_imports unhandled_extensions set_default_extension kw w =
     (case validate_compression env c True of
        Inl err \<Rightarrow> (Inl err, w)
      | Inr v \<Rightarrow>
          (case preprocess_path env path c unhandled_extensions set_default_extension w of
             (Inl err, w1) \<Rightarrow> (Inl err, w1)
           | (Inr (path', c', stream), w1) \<Rightarrow>
               (case (case mode of
                        None \<Rightarrow> get_compression_write_mode env c'
                      | Some m \<Rightarrow> Inr m) of
                  Inl err \<Rightarrow> (Inl err, w1)
                | Inr m \<Rightarrow>
                    (case open_compression_stream env path' c' stream m kw w1 of
                       (Inl err, w2) \<Rightarrow> (Inl err, w2)
                     | (Inr (io_stream, arch, arcname, must_close), w2) \<Rightarrow>
                         dump_transfer env obj io_stream arch arcname must_close
                           protocol fix_imports w2))))"

text \<open>
  \<^verbatim>\<open>dumps\<close>: the scheme defaults to \<^verbatim>\<open>None\<close>. Line 139 binds \<^verbatim>\<open>compression\<close> anew, to
  what the call of \<^verbatim>\<open>validate_compression\<close> returns: after a validation that went through
  this is \<^verbatim>\<open>None\<close>, and it is what \<^verbatim>\<open>dump\<close> is given as the scheme. The buffer is not
  closed, and its whole contents are returned.
\<close>

definition dumps ::
  "'o env \<Rightarrow> 'o \<Rightarrow> compression arg \<Rightarrow> int \<Rightarrow> bool \<Rightarrow> kwargs \<Rightarrow> world
     \<Rightarrow> (error + bytes) \<times> world" where
  "dumps env obj compression protocol fix_imports kw w =
     (case validate_compression env (case compression of Omitted \<Rightarrow> PyNone | Given c \<Rightarrow> c) False of
        Inl err \<Rightarrow> (Inl err, w)
      | Inr v \<Rightarrow>
          (let c = PyNone;
               (stream, w1) = BytesIO [] w
           in (case dump env obj (Stream stream) c None protocol fix_imports Raise False kw w1 of
                 (Inl err, w2) \<Rightarrow> (Inl err, w2)
               | (Inr u, w2) \<Rightarrow> (getvalue stream w2, w2))))"

text \<open>
  Lines 231 to 247 of \<^verbatim>\<open>load\<close>: here the archive is closed before the stream, again
  without a guard between the two closes.
\<close>

definition load_transfer ::
  "'o env \<Rightarrow> handle \<Rightarrow> handle option \<Rightarrow> bool \<Rightarrow> bool \<Rightarrow> string \<Rightarrow> string \<Rightarrow> world
     \<Rightarrow> (error + 'o) \<times> world" where
  "load_transfer env io_stream arch must_close fix_imports encoding errors w =
     (case arch of
        Some a \<Rightarrow>
          (let (r, w') = pickle_load env io_stream fix_imports encoding errors w
           in if must_close then
                (case close_stream a w' of
                   (Inl err, w1) \<Rightarrow> (Inl err, w1)
                 | (Inr u, w1) \<Rightarrow>
                     (case close_stream io_stream w1 of
                        (Inl err, w2) \<Rightarrow> (Inl err, w2)
                      | (Inr u, w2) \<Rightarrow> (r, w2)))
              else (r, w'))
      | None \<Rightarrow>
          (let (r, w') = pickle_load env io_stream fix_imports encoding errors w
           in if must_close then
                (case close_stream io_stream w' of
                   (Inl err, w1) \<Rightarrow> (Inl err, w1)
                 | (Inr u, w1) \<Rightarrow> (r, w1))
              else (r, w')))"

definition load ::
  "'o env \<Rightarrow> path_arg \<Rightarrow> compression \<Rightarrow> string option \<Rightarrow> bool \<Rightarrow> string \<Rightarrow> string \<Rightarrow> bool
     \<Rightarrow> policy \<Rightarrow> kwargs \<Rightarrow> world \<Rightarrow> (error + 'o) \<times> world" where
  "load env path c mode fix_imports encoding errors set_default_extension unhandled_extensions kw w =
     (case validate_compression env c True of
        Inl err \<Rightarrow> (Inl err, w)
      | Inr v \<Rightarrow>
          (case preprocess_path env path c unhandled_extensions set_default_extension w of
             (Inl err, w1) \<Rightarrow> (Inl err, w1)
           | (Inr (path', c', stream), w1) \<Rightarrow>
               (case (case mode of
                        None \<Rightarrow> get_compression_read_mode env c'
                      | Some m \<Rightarrow> Inr m) of
                  Inl err \<Rightarrow> (Inl err, w1)
                | Inr m \<Rightarrow>
                    (case open_compression_stream env path' c' stream m kw w1 of
                       (Inl err, w2) \<Rightarrow> (Inl err, w2)
                     | (Inr (io_stream, arch, arcname, must_close), w2) \<Rightarrow>
                         load_transfer env io_stream arch must_close
                           fix_imports encoding errors w2))))"

text \<open>
  \<^verbatim>\<open>loads\<close>: the scheme has no default, so a call without it fails when the arguments
  are bound (the specification files this under InvalidArgumentError). The arguments
  \<^verbatim>\<open>set_default_extension\<close> and \<^verbatim>\<open>unhandled_extensions\<close> are accepted and not passed on:
  \<^verbatim>\<open>load\<close> runs with its own defaults. The \<^verbatim>\<open>with\<close> block closes the buffer on the way
  out, whatever \<^verbatim>\<open>load\<close> did; closing an in-memory buffer does not raise.
\<close>

definition loads ::
  "'o env \<Rightarrow> bytes \<Rightarrow> compression arg \<Rightarrow> bool \<Rightarrow> string \<Rightarrow> string \<Rightarrow> bool \<Rightarrow> policy
     \<Rightarrow> kwargs \<Rightarrow> world \<Rightarrow> (error + 'o) \<times> world" where
  "loads env data compression fix_imports encoding errors set_default_extension unhandled_extensions kw w =
     (case compression of
        Omitted \<Rightarrow> (Inl InvalidArgumentError, w)
      | Given c \<Rightarrow>
          (case validate_compression env c False of
             Inl err \<Rightarrow> (Inl err, w)
           | Inr v \<Rightarrow>
               (let (stream, w1) = BytesIO data w;
                    (r, w2) = load env (Stream stream) c None fix_imports encoding errors
                                True Raise kw w1
                in (r, close stream w2))))"

section \<open>What the specification says, as definitions\<close>

text \<open>
  The specification's description of \<^verbatim>\<open>dumps\<close>: run \<^verbatim>\<open>dump\<close> against a fresh, empty
  in-memory buffer, with the normalisation of the extension off, and return what the
  buffer holds at the end.
\<close>

definition dumps_spec ::
  "'o env \<Rightarrow> 'o \<Rightarrow> compression \<Rightarrow> int \<Rightarrow> bool \<Rightarrow> kwargs \<Rightarrow> world
     \<Rightarrow> (error + bytes) \<times> world" where
  "dumps_spec env obj S protocol fix_imports kw w =
     (let (buffer, w1) = BytesIO [] w;
          (r, w2) = dump env obj (Stream buffer) S None protocol fix_imports Raise False kw w1
      in (case r of Inl err \<Rightarrow> Inl err | Inr u \<Rightarrow> getvalue buffer w2, w2))"

text \<open>
  The specification's description of \<^verbatim>\<open>loads\<close>: wrap the bytes in a fresh in-memory
  buffer, call \<^verbatim>\<open>load\<close> on it with the same scheme and decode options, and return what
  \<^verbatim>\<open>load\<close> returns.
\<close>

definition loads_spec ::
  "'o env \<Rightarrow> bytes \<Rightarrow> compression \<Rightarrow> bool \<Rightarrow> string \<Rightarrow> string \<Rightarrow> kwargs \<Rightarrow> world
     \<Rightarrow> (error + 'o) \<times> world" where
  "loads_spec env data S fix_imports encoding errors kw w =
     (let (buffer, w1) = BytesIO data w
      in load env (Stream buffer) S None fix_imports encoding errors True Raise kw w1)"

text \<open>The bytes that reach the target when the serialized bytes \<open>b\<close> go through scheme \<open>c\<close>.\<close>

definition encoded :: "'o env \<Rightarrow> compression \<Rightarrow> kwargs \<Rightarrow> path_arg \<Rightarrow> bytes \<Rightarrow> bytes option" where
  "encoded env c kw path b =
     (case lookup (registry env) c of
        None \<Rightarrow> None
      | Some d \<Rightarrow>
          Some (case d_opener d of
                  RawOpener \<Rightarrow> b
                | FilterOpener e dc \<Rightarrow> e b
                | ArchiveOpener e dc \<Rightarrow> e (member_name env kw path) b))"

text \<open>The path a call works on, once the extension has been normalised (or not).\<close>

definition effective_path :: "'o env \<Rightarrow> string \<Rightarrow> compression \<Rightarrow> bool \<Rightarrow> string" where
  "effective_path env p c sde = (if sde then set_default_extensions env p c else p)"

section \<open>A concrete instance\<close>

text \<open>
  A small instance of the environment, on which the definitions can be evaluated: six
  schemes (two raw ones, three filters, one archive scheme), codecs that put a tag in
  front of the data, and a serializer of strings.
\<close>

definition tag_enc :: "bytes \<Rightarrow> bytes \<Rightarrow> bytes" where
  "tag_enc t b = t @ b"

definition tag_dec :: "bytes \<Rightarrow> bytes \<Rightarrow> bytes option" where
  "tag_dec t x = (if take (length t) x = t then Some (drop (length t) x) else None)"

definition last_suffix :: "string \<Rightarrow> string" where
  "last_suffix p =
     (if CHR ''.'' \<in> set p then CHR ''.'' # rev (takeWhile (\<lambda>c. c \<noteq> CHR ''.'') (rev p)) else [])"

definition none_d :: descriptor where
  "none_d = \<lparr>d_name = PyNone, d_extensions = [''.pkl''], d_write_mode = ''wb+'',
             d_read_mode = ''rb+'', d_opener = RawOpener\<rparr>"

definition pickle_d :: descriptor where
  "pickle_d = \<lparr>d_name = PyStr ''pickle'', d_extensions = [''.pkl''], d_write_mode = ''wb+'',
               d_read_mode = ''rb+'', d_opener = RawOpener\<rparr>"

definition gzip_d :: descriptor where
  "gzip_d = \<lparr>d_name = PyStr ''gzip'', d_extensions = [''.gz''], d_write_mode = ''wb'',
             d_read_mode = ''rb'', d_opener = FilterOpener (tag_enc ''gz:'') (tag_dec ''gz:'')\<rparr>"

definition bz2_d :: descriptor where
  "bz2_d = \<lparr>d_name = PyStr ''bz2'', d_extensions = [''.bz'', ''.bz2''], d_write_mode = ''wb'',
            d_read_mode = ''rb'', d_opener = FilterOpener (tag_enc ''BZh'') (tag_dec ''BZh'')\<rparr>"

definition lzma_d :: descriptor where
  "lzma_d = \<lparr>d_name = PyStr ''lzma'', d_extensions = [''.lzma'', ''.xz''], d_write_mode = ''wb'',
             d_read_mode = ''rb'', d_opener = FilterOpener (tag_enc ''xz:'') (tag_dec ''xz:'')\<rparr>"

definition zipfile_d :: descriptor where
  "zipfile_d = \<lparr>d_name = PyStr ''zipfile'', d_extensions = [''.zip''], d_write_mode = ''w'',
                d_read_mode = ''r'',
                d_opener = ArchiveOpener (\<lambda>n. tag_enc (''PK'' @ n @ '':''))
                                         (\<lambda>n. tag_dec (''PK'' @ n @ '':''))\<rparr>"

definition registry0 :: "descriptor list" where
  "registry0 = [none_d, pickle_d, gzip_d, bz2_d, lzma_d, zipfile_d]"

definition env0 :: "string env" where
  "env0 =
     \<lparr>registry = registry0,
      fallback_scheme = PyNone,
      path_suffix = last_suffix,
      set_default_extensions = (\<lambda>p c. p),
      default_arcname = (\<lambda>n. case n of None \<Rightarrow> ''default'' | Some p \<Rightarrow> p),
      pickle_dumps = (\<lambda>obj protocol fix_imports. Inr (CHR ''S'' # obj)),
      pickle_loads =
        (\<lambda>b fix_imports encoding errors.
           case b of [] \<Rightarrow> Inl PickleError
           | c # r \<Rightarrow> if c = CHR ''S'' then Inr r else Inl PickleError),
      version_info = (3, 8)\<rparr>"

text \<open>
  Three worlds: an empty one, one with an open in-memory stream positioned inside its
  contents, and one with a file whose extension no scheme knows.
\<close>

definition world0 :: world where
  "world0 = \<lparr>w_files = Map.empty, w_streams = Map.empty, w_next = 0, w_warnings = 0,
             w_refuses = (\<lambda>h. False)\<rparr>"

definition world1 :: world where
  "world1 = \<lparr>w_files = Map.empty, w_streams = [0 \<mapsto> Plain None ''abcd'' 2 False],
             w_next = 1, w_warnings = 0, w_refuses = (\<lambda>h. False)\<rparr>"

definition world2 :: world where
  "world2 = \<lparr>w_files = [''a.xyz'' \<mapsto> ''Shello''], w_streams = Map.empty,
             w_next = 0, w_warnings = 0, w_refuses = (\<lambda>h. False)\<rparr>"

text \<open>
  A fourth world: the caller holds an open file object on a device without space, as
  \<^verbatim>\<open>open("/dev/full", "wb")\<close> gives it: every write to it is refused.
\<close>

definition world3 :: world where
  "world3 = \<lparr>w_files = [''/dev/full'' \<mapsto> []],
             w_streams = [0 \<mapsto> Plain (Some ''/dev/full'') [] 0 False],
             w_next = 1, w_warnings = 0, w_refuses = (\<lambda>h. h = 0)\<rparr>"

section \<open>Collections of defining equations\<close>

lemmas world_steps = alloc_def BytesIO_def getvalue_def raw_write_def stream_write_def
  overwrite_def close_def close_stream_def set_closed_def raw_read_def read_all_def
  writestr_def open_file_def is_read_mode_def

lemmas facade_steps = dumps_def dump_def dump_transfer_def loads_def load_def load_transfer_def
  validate_compression_def preprocess_path_def get_compression_write_mode_def
  get_compression_read_mode_def open_compression_stream_def member_name_def underlying_def
  path_name_def pickle_dump_def pickle_load_def before_3_6_def lookup_def reverse_lookup_def
  infer_compression_from_filename_def

lemmas instance_steps = env0_def registry0_def none_d_def pickle_d_def gzip_d_def bz2_d_def
  lzma_d_def zipfile_d_def world0_def world1_def world2_def world3_def tag_enc_def tag_dec_def
  last_suffix_def

lemmas dump_steps = dump_def dump_transfer_def validate_compression_def preprocess_path_def
  open_compression_stream_def underlying_def pickle_dump_def get_compression_write_mode_def

lemmas load_steps = load_def load_transfer_def validate_compression_def preprocess_path_def
  open_compression_stream_def underlying_def pickle_load_def get_compression_read_mode_def

lemmas write_steps = stream_write_def raw_write_def writestr_def alloc_def close_def
  close_stream_def set_closed_def

lemmas read_steps = read_all_def raw_read_def alloc_def close_def close_stream_def
  set_closed_def

section \<open>Validation: inference and unknown schemes\<close>

text \<open>
  C5: the operations on bytes reject inference. For every input,
  \<^verbatim>\<open>dumps(obj, compression="infer")\<close> and \<^verbatim>\<open>loads(data, compression="infer")\<close> fail with
  InvalidArgumentError, and the world is left as it was.
\<close>

theorem bytes_operations_reject_infer:
  "dumps env obj (Given infer) protocol fix_imports kw w = (Inl InvalidArgumentError, w) \<and>
   loads env data (Given infer) fix_imports encoding errors sde ue kw w
     = (Inl InvalidArgumentError, w)"
  by (simp add: dumps_def loads_def validate_compression_def)

text \<open>
  C7: for every compression argument that is neither "infer" nor a registered scheme
  name, \<^verbatim>\<open>dump\<close> and \<^verbatim>\<open>load\<close> fail with UnknownSchemeError, before any file or stream is
  opened or created: the world after the failed call is the world before it.
\<close>

theorem unknown_scheme_fails_untouched:
  assumes "c \<noteq> infer" and "lookup (registry env) c = None"
  shows "dump env obj path c mode protocol fix_imports ue sde kw w
           = (Inl UnknownSchemeError, w) \<and>
         load env path c mode fix_imports encoding errors sde ue kw w
           = (Inl UnknownSchemeError, w)"
  using assms by (simp add: dump_def load_def validate_compression_def)

lemma lookup_foo: "lookup (registry env0) (PyStr ''foo'') = None"
  by (simp add: lookup_def instance_steps)

theorem unknown_scheme_fails_untouched_witness:
  "PyStr ''foo'' \<noteq> infer \<and> lookup (registry env0) (PyStr ''foo'') = None \<and>
   dump env0 ''hello'' (Path ''a.gz'') (PyStr ''foo'') None (-1) True Raise True [] world0
     = (Inl UnknownSchemeError, world0) \<and>
   load env0 (Path ''a.gz'') (PyStr ''foo'') None True ''ASCII'' ''strict'' True Raise [] world0
     = (Inl UnknownSchemeError, world0)"
proof -
  have h1: "PyStr ''foo'' \<noteq> infer" by simp
  from unknown_scheme_fails_untouched [OF h1 lookup_foo] h1 lookup_foo
  show ?thesis by blast
qed

section \<open>The scheme left out\<close>

text \<open>
  C6, as the specification has it, fails on \<^verbatim>\<open>dumps\<close>: a call without the scheme is not
  an error there. On the concrete instance it returns the serialized bytes.
\<close>

theorem dumps_without_scheme_succeeds:
  "fst (dumps env0 ''hello'' Omitted (-1) True [] world0) = Inr ''Shello'' \<and>
   fst (dumps env0 ''hello'' Omitted (-1) True [] world0) \<noteq> Inl InvalidArgumentError"
  by (simp add: facade_steps world_steps instance_steps)

text \<open>
  C6, amended: calling \<^verbatim>\<open>loads\<close> with the scheme left out fails with
  InvalidArgumentError, the scheme being a required input of load-from-bytes; calling
  \<^verbatim>\<open>dumps\<close> with the scheme left out is the call with the scheme \<^verbatim>\<open>None\<close>.
\<close>

theorem omitted_scheme_loads_fails_dumps_defaults:
  "loads env data Omitted fix_imports encoding errors sde ue kw w
     = (Inl InvalidArgumentError, w) \<and>
   dumps env obj Omitted protocol fix_imports kw w
     = dumps env obj (Given PyNone) protocol fix_imports kw w"
  by (simp add: dumps_def loads_def)

text \<open>
  C10: calling \<^verbatim>\<open>dumps\<close> with the compression argument left out is not an error. The
  scheme defaults to \<^verbatim>\<open>None\<close>, which is registered as a raw scheme, and the call returns
  the plain serialized bytes of the object.
\<close>

theorem dumps_default_is_plain_pickle:
  assumes "lookup (registry env) PyNone = Some d" and "d_opener d = RawOpener"
    and "pickle_dumps env obj protocol fix_imports = Inr b"
  shows "fst (dumps env obj Omitted protocol fix_imports kw w) = Inr b"
  using assms
  by (simp add: dumps_def dump_def dump_transfer_def validate_compression_def
      preprocess_path_def get_compression_write_mode_def open_compression_stream_def
      pickle_dump_def world_steps)

lemma lookup_none: "lookup (registry env0) PyNone = Some none_d"
  by (simp add: lookup_def instance_steps)

lemma pickle_dumps_hello: "pickle_dumps env0 ''hello'' (-1) True = Inr ''Shello''"
  by (simp add: env0_def)

lemma pickle_loads_hello: "pickle_loads env0 ''Shello'' True ''ASCII'' ''strict'' = Inr ''hello''"
  by (simp add: env0_def)

theorem dumps_default_is_plain_pickle_witness:
  "lookup (registry env0) PyNone = Some none_d \<and> d_opener none_d = RawOpener \<and>
   pickle_dumps env0 ''hello'' (-1) True = Inr ''Shello'' \<and>
   fst (dumps env0 ''hello'' Omitted (-1) True [] world0) = Inr ''Shello''"
proof -
  have h2: "d_opener none_d = RawOpener" by (simp add: none_d_def)
  from dumps_default_is_plain_pickle [OF lookup_none h2 pickle_dumps_hello] lookup_none h2
    pickle_dumps_hello
  show ?thesis by blast
qed

section \<open>The operations on bytes as calls on a buffer\<close>

lemma lookup_gzip: "lookup (registry env0) (PyStr ''gzip'') = Some gzip_d"
  by (simp add: lookup_def instance_steps)

text \<open>
  What \<^verbatim>\<open>dumps\<close> does with a concrete registered scheme: it validates it and then runs
  \<^verbatim>\<open>dump\<close> on the fresh buffer with the scheme \<^verbatim>\<open>None\<close>, whatever the scheme asked for.
\<close>

lemma dumps_ignores_scheme:
  assumes "S \<noteq> infer" and "lookup (registry env) S \<noteq> None"
  shows "dumps env obj (Given S) protocol fix_imports kw w
           = dumps_spec env obj PyNone protocol fix_imports kw w"
  using assms
  by (auto simp add: dumps_def dumps_spec_def validate_compression_def
      split: prod.splits sum.splits)

text \<open>
  C8 says that \<^verbatim>\<open>dumps(obj, S)\<close> is \<^verbatim>\<open>dump(obj, buffer, S)\<close> on a fresh empty buffer with
  \<^verbatim>\<open>set_default_extension=False\<close>, returning the buffer's final contents. The code does
  not do this: for the gzip scheme \<^verbatim>\<open>dumps\<close> returns the plain serialized bytes, while
  \<^verbatim>\<open>dump\<close> on a fresh buffer with the gzip scheme leaves the compressed bytes in it.
\<close>

theorem dumps_is_not_dump_with_the_scheme:
  "fst (dumps env0 ''hello'' (Given (PyStr ''gzip'')) (-1) True [] world0) = Inr ''Shello'' \<and>
   fst (dumps_spec env0 ''hello'' (PyStr ''gzip'') (-1) True [] world0) = Inr ''gz:Shello''"
  by (simp add: dumps_spec_def facade_steps world_steps instance_steps)

text \<open>
  C9: for every byte sequence and scheme, \<^verbatim>\<open>loads\<close> returns, or raises, what \<^verbatim>\<open>load\<close>
  gives on a fresh in-memory buffer holding the bytes, with the same scheme and decode
  options; for a concrete registered scheme the world it leaves is the one \<^verbatim>\<open>load\<close>
  leaves, with that buffer closed.
\<close>

theorem loads_is_load_on_fresh_buffer:
  "fst (loads env data (Given S) fix_imports encoding errors sde ue kw w)
     = fst (loads_spec env data S fix_imports encoding errors kw w) \<and>
   (S \<noteq> infer \<and> lookup (registry env) S \<noteq> None \<longrightarrow>
      snd (loads env data (Given S) fix_imports encoding errors sde ue kw w)
        = close (w_next w) (snd (loads_spec env data S fix_imports encoding errors kw w)))"
  by (auto simp add: loads_def loads_spec_def load_def validate_compression_def
      preprocess_path_def BytesIO_def alloc_def split: prod.splits sum.splits)

theorem loads_is_load_on_fresh_buffer_witness:
  "PyStr ''gzip'' \<noteq> infer \<and> lookup (registry env0) (PyStr ''gzip'') \<noteq> None \<and>
   snd (loads env0 ''gz:Shello'' (Given (PyStr ''gzip'')) True ''ASCII'' ''strict'' True Raise
          [] world0)
     = close (w_next world0)
         (snd (loads_spec env0 ''gz:Shello'' (PyStr ''gzip'') True ''ASCII'' ''strict'' []
                 world0))"
proof -
  have h: "PyStr ''gzip'' \<noteq> infer \<and> lookup (registry env0) (PyStr ''gzip'') \<noteq> None"
    by (simp add: lookup_gzip)
  from loads_is_load_on_fresh_buffer
    [of env0 "''gz:Shello''" "PyStr ''gzip''" True "''ASCII''" "''strict''" True Raise "[]" world0] h
  show ?thesis by blast
qed

section \<open>Unrecognised extensions\<close>

lemma dump_unrecognized_raw:
  assumes "reverse_lookup (registry env) (path_suffix env p) = None"
    and "ue \<noteq> Raise"
    and "lookup (registry env) (fallback_scheme env) = Some d"
    and "d_opener d = RawOpener"
    and "\<not> is_read_mode (d_write_mode d)"
    and "pickle_dumps env obj protocol fi = Inr b"
  shows "fst (dump env obj (Path p) infer None protocol fi ue sde kw w) = Inr () \<and>
         w_files (snd (dump env obj (Path p) infer None protocol fi ue sde kw w))
           (effective_path env p (fallback_scheme env) sde) = Some b \<and>
         w_warnings (snd (dump env obj (Path p) infer None protocol fi ue sde kw w)) =
           (if ue = Warn then Suc (w_warnings w) else w_warnings w)"
  using assms
  by (cases ue)
     (simp_all add: dump_steps infer_compression_from_filename_def world_steps
        effective_path_def)

lemma load_unrecognized_raw:
  assumes "reverse_lookup (registry env) (path_suffix env p) = None"
    and "ue \<noteq> Raise"
    and "lookup (registry env) (fallback_scheme env) = Some d"
    and "d_opener d = RawOpener"
    and "is_read_mode (d_read_mode d)"
    and "w_files w (effective_path env p (fallback_scheme env) sde) = Some b"
    and "pickle_loads env b fi encoding errors = Inr x"
  shows "fst (load env (Path p) infer None fi encoding errors sde ue kw w) = Inr x \<and>
         w_warnings (snd (load env (Path p) infer None fi encoding errors sde ue kw w)) =
           (if ue = Warn then Suc (w_warnings w) else w_warnings w)"
  using assms
  by (cases ue)
     (simp_all add: load_steps infer_compression_from_filename_def world_steps
        effective_path_def)

lemma unrecognized_raise:
  assumes "reverse_lookup (registry env) (path_suffix env p) = None"
  shows "dump env obj (Path p) infer mode protocol fi Raise sde kw w
           = (Inl UnrecognizedExtensionError, w)"
    and "load env (Path p) infer mode fi encoding errors sde Raise kw w
           = (Inl UnrecognizedExtensionError, w)"
  using assms
  by (simp_all add: dump_def load_def validate_compression_def preprocess_path_def
      infer_compression_from_filename_def)

text \<open>
  C4: for every path whose extension matches no registered scheme, \<^verbatim>\<open>dump\<close> and \<^verbatim>\<open>load\<close>
  with \<^verbatim>\<open>compression="infer"\<close> follow the \<^verbatim>\<open>unhandled_extensions\<close> policy. With "raise"
  they fail with UnrecognizedExtensionError and change nothing. With "ignore" they go on
  with the raw scheme: \<^verbatim>\<open>dump\<close> succeeds and the file holds the plain serialized bytes,
  \<^verbatim>\<open>load\<close> succeeds with the object the file's bytes decode to, and no warning is
  issued. With "warn" they do the same and issue exactly one warning.
\<close>

theorem unhandled_extension_policy:
  assumes "reverse_lookup (registry env) (path_suffix env p) = None"
  shows
    "dump env obj (Path p) infer mode protocol fi Raise sde kw w
       = (Inl UnrecognizedExtensionError, w) \<and>
     load env (Path p) infer mode fi encoding errors sde Raise kw w'
       = (Inl UnrecognizedExtensionError, w') \<and>
     (lookup (registry env) (fallback_scheme env) = Some d \<and> d_opener d = RawOpener \<and>
      \<not> is_read_mode (d_write_mode d) \<and> pickle_dumps env obj protocol fi = Inr b \<longrightarrow>
        fst (dump env obj (Path p) infer None protocol fi Ignore sde kw w) = Inr () \<and>
        w_files (snd (dump env obj (Path p) infer None protocol fi Ignore sde kw w))
          (effective_path env p (fallback_scheme env) sde) = Some b \<and>
        w_warnings (snd (dump env obj (Path p) infer None protocol fi Ignore sde kw w))
          = w_warnings w \<and>
        fst (dump env obj (Path p) infer None protocol fi Warn sde kw w) = Inr () \<and>
        w_files (snd (dump env obj (Path p) infer None protocol fi Warn sde kw w))
          (effective_path env p (fallback_scheme env) sde) = Some b \<and>
        w_warnings (snd (dump env obj (Path p) infer None protocol fi Warn sde kw w))
          = Suc (w_warnings w)) \<and>
     (lookup (registry env) (fallback_scheme env) = Some d \<and> d_opener d = RawOpener \<and>
      is_read_mode (d_read_mode d) \<and>
      w_files w' (effective_path env p (fallback_scheme env) sde) = Some b' \<and>
      pickle_loads env b' fi encoding errors = Inr x \<longrightarrow>
        fst (load env (Path p) infer None fi encoding errors sde Ignore kw w') = Inr x \<and>
        w_warnings (snd (load env (Path p) infer None fi encoding errors sde Ignore kw w'))
          = w_warnings w' \<and>
        fst (load env (Path p) infer None fi encoding errors sde Warn kw w') = Inr x \<and>
        w_warnings (snd (load env (Path p) infer None fi encoding errors sde Warn kw w'))
          = Suc (w_warnings w'))"
proof (intro conjI impI)
  show "dump env obj (Path p) infer mode protocol fi Raise sde kw w
          = (Inl UnrecognizedExtensionError, w)"
    by (rule unrecognized_raise(1) [OF assms])
  show "load env (Path p) infer mode fi encoding errors sde Raise kw w'
          = (Inl UnrecognizedExtensionError, w')"
    by (rule unrecognized_raise(2) [OF assms])
next
  assume h: "lookup (registry env) (fallback_scheme env) = Some d \<and> d_opener d = RawOpener \<and>
      \<not> is_read_mode (d_write_mode d) \<and> pickle_dumps env obj protocol fi = Inr b"
  have i: "Ignore \<noteq> Raise" and j: "Warn \<noteq> Raise" by simp_all
  from h have h1: "lookup (registry env) (fallback_scheme env) = Some d"
    and h2: "d_opener d = RawOpener" and h3: "\<not> is_read_mode (d_write_mode d)"
    and h4: "pickle_dumps env obj protocol fi = Inr b" by simp_all
  note ign = dump_unrecognized_raw [OF assms i h1 h2 h3 h4, of sde kw w]
  note wrn = dump_unrecognized_raw [OF assms j h1 h2 h3 h4, of sde kw w]
  show "fst (dump env obj (Path p) infer None protocol fi Ignore sde kw w) = Inr ()"
    using ign by simp
  show "w_files (snd (dump env obj (Path p) infer None protocol fi Ignore sde kw w))
          (effective_path env p (fallback_scheme env) sde) = Some b"
    using ign by simp
  show "w_warnings (snd (dump env obj (Path p) infer None protocol fi Ignore sde kw w))
          = w_warnings w"
    using ign by simp
  show "fst (dump env obj (Path p) infer None protocol fi Warn sde kw w) = Inr ()"
    using wrn by simp
  show "w_files (snd (dump env obj (Path p) infer None protocol fi Warn sde kw w))
          (effective_path env p (fallback_scheme env) sde) = Some b"
    using wrn by simp
  show "w_warnings (snd (dump env obj (Path p) infer None protocol fi Warn sde kw w))
          = Suc (w_warnings w)"
    using wrn by simp
next
  assume h: "lookup (registry env) (fallback_scheme env) = Some d \<and> d_opener d = RawOpener \<and>
      is_read_mode (d_read_mode d) \<and>
      w_files w' (effective_path env p (fallback_scheme env) sde) = Some b' \<and>
      pickle_loads env b' fi encoding errors = Inr x"
  have i: "Ignore \<noteq> Raise" and j: "Warn \<noteq> Raise" by simp_all
  from h have h1: "lookup (registry env) (fallback_scheme env) = Some d"
    and h2: "d_opener d = RawOpener" and h3: "is_read_mode (d_read_mode d)"
    and h4: "w_files w' (effective_path env p (fallback_scheme env) sde) = Some b'"
    and h5: "pickle_loads env b' fi encoding errors = Inr x" by simp_all
  note ign = load_unrecognized_raw [OF assms i h1 h2 h3 h4 h5, of kw]
  note wrn = load_unrecognized_raw [OF assms j h1 h2 h3 h4 h5, of kw]
  show "fst (load env (Path p) infer None fi encoding errors sde Ignore kw w') = Inr x"
    using ign by simp
  show "w_warnings (snd (load env (Path p) infer None fi encoding errors sde Ignore kw w'))
          = w_warnings w'"
    using ign by simp
  show "fst (load env (Path p) infer None fi encoding errors sde Warn kw w') = Inr x"
    using wrn by simp
  show "w_warnings (snd (load env (Path p) infer None fi encoding errors sde Warn kw w'))
          = Suc (w_warnings w')"
    using wrn by simp
qed

lemma no_scheme_for_xyz: "reverse_lookup (registry env0) (path_suffix env0 ''a.xyz'') = None"
  by (simp add: reverse_lookup_def instance_steps)

lemma fallback_is_none_d: "lookup (registry env0) (fallback_scheme env0) = Some none_d"
  by (simp add: lookup_def instance_steps)

theorem unhandled_extension_policy_witness:
  "reverse_lookup (registry env0) (path_suffix env0 ''a.xyz'') = None \<and>
   lookup (registry env0) (fallback_scheme env0) = Some none_d \<and> d_opener none_d = RawOpener \<and>
   \<not> is_read_mode (d_write_mode none_d) \<and> is_read_mode (d_read_mode none_d) \<and>
   pickle_dumps env0 ''hello'' (-1) True = Inr ''Shello'' \<and>
   w_files world2 (effective_path env0 ''a.xyz'' (fallback_scheme env0) True) = Some ''Shello'' \<and>
   pickle_loads env0 ''Shello'' True ''ASCII'' ''strict'' = Inr ''hello'' \<and>
   dump env0 ''hello'' (Path ''a.xyz'') infer None (-1) True Raise True [] world0
     = (Inl UnrecognizedExtensionError, world0) \<and>
   load env0 (Path ''a.xyz'') infer None True ''ASCII'' ''strict'' True Raise [] world2
     = (Inl UnrecognizedExtensionError, world2) \<and>
   fst (dump env0 ''hello'' (Path ''a.xyz'') infer None (-1) True Ignore True [] world0) = Inr () \<and>
   w_warnings (snd (dump env0 ''hello'' (Path ''a.xyz'') infer None (-1) True Ignore True []
                      world0)) = w_warnings world0 \<and>
   fst (dump env0 ''hello'' (Path ''a.xyz'') infer None (-1) True Warn True [] world0) = Inr () \<and>
   w_files (snd (dump env0 ''hello'' (Path ''a.xyz'') infer None (-1) True Warn True [] world0))
     (effective_path env0 ''a.xyz'' (fallback_scheme env0) True) = Some ''Shello'' \<and>
   w_warnings (snd (dump env0 ''hello'' (Path ''a.xyz'') infer None (-1) True Warn True []
                      world0)) = Suc (w_warnings world0) \<and>
   fst (load env0 (Path ''a.xyz'') infer None True ''ASCII'' ''strict'' True Ignore [] world2)
     = Inr ''hello'' \<and>
   fst (load env0 (Path ''a.xyz'') infer None True ''ASCII'' ''strict'' True Warn [] world2)
     = Inr ''hello'' \<and>
   w_warnings (snd (load env0 (Path ''a.xyz'') infer None True ''ASCII'' ''strict'' True Warn []
                      world2)) = Suc (w_warnings world2)"
proof -
  have h2: "d_opener none_d = RawOpener" by (simp add: none_d_def)
  have h3: "\<not> is_read_mode (d_write_mode none_d)" by (simp add: none_d_def is_read_mode_def)
  have h4: "is_read_mode (d_read_mode none_d)" by (simp add: none_d_def is_read_mode_def)
  have h5: "w_files world2 (effective_path env0 ''a.xyz'' (fallback_scheme env0) True)
              = Some ''Shello''"
    by (simp add: effective_path_def env0_def world2_def)
  note hs = no_scheme_for_xyz fallback_is_none_d h2 h3 h4 pickle_dumps_hello h5
    pickle_loads_hello
  from unhandled_extension_policy [OF no_scheme_for_xyz, where obj = "''hello''"
      and mode = None and protocol = "-1" and fi = True and sde = True and kw = "[]"
      and w = world0 and w' = world2 and encoding = "''ASCII''" and errors = "''strict''"
      and d = none_d and b = "''Shello''" and b' = "''Shello''" and x = "''hello''"] hs
  show ?thesis by blast
qed

section \<open>Closing what the call opened\<close>

text \<open>
  C2 says that every stream or archive handle a call of \<^verbatim>\<open>dump\<close> or \<^verbatim>\<open>load\<close> opened itself
  (ownership flag set) is closed when the call returns, also when the write step
  raises. The code does not reach that: the caller's file object refuses the write, so
  the transfer raises; the opener handed over the member stream 2 and the archive 1
  with the ownership flag set; in \<^verbatim>\<open>finally\<close> the close of the member stream raises as
  well, the close of the archive is skipped, and the archive, which was not there
  before the call, is open after it.
\<close>

theorem archive_left_open_when_close_raises:
  "fst (open_compression_stream env0 (Stream 0) (PyStr ''zipfile'') (Some 0) ''w'' [] world3)
     = Inr (2, Some 1, Some ''default'', True) \<and>
   fst (dump env0 ''hello'' (Stream 0) (PyStr ''zipfile'') None (-1) True Raise True [] world3)
     = Inl OSError \<and>
   \<not> is_open world3 1 \<and>
   is_open (snd (dump env0 ''hello'' (Stream 0) (PyStr ''zipfile'') None (-1) True Raise True []
                  world3)) 1 \<and>
   is_closed (snd (dump env0 ''hello'' (Stream 0) (PyStr ''zipfile'') None (-1) True Raise True []
                    world3)) 2"
  by (simp add: facade_steps world_steps instance_steps is_open_def is_closed_def Let_def
      numeral_2_eq_2)

section \<open>Writing to a caller's stream\<close>

lemma dump_raw_stream:
  assumes "w_streams w s = Some (Plain fp d p False)" and "\<not> w_refuses w s"
    and "lookup (registry env) c = Some dsc" and "d_opener dsc = RawOpener" and "c \<noteq> infer"
    and "pickle_dumps env obj protocol fi = Inr b"
  shows "fst (dump env obj (Stream s) c mode protocol fi ue sde kw w) = Inr () \<and>
         w_streams (snd (dump env obj (Stream s) c mode protocol fi ue sde kw w)) s =
           Some (Plain fp (overwrite d p b) (p + length b) False)"
  using assms by (cases mode; cases fp) (simp_all add: dump_steps write_steps Let_def)

lemma dump_filter_stream:
  assumes "w_streams w s = Some (Plain fp d p False)" and "\<not> w_refuses w s"
    and "s \<noteq> w_next w"
    and "lookup (registry env) c = Some dsc" and "d_opener dsc = FilterOpener e dc" and "c \<noteq> infer"
    and "pickle_dumps env obj protocol fi = Inr b"
  shows "fst (dump env obj (Stream s) c mode protocol fi ue sde kw w) = Inr () \<and>
         w_streams (snd (dump env obj (Stream s) c mode protocol fi ue sde kw w)) s =
           Some (Plain fp (overwrite d p (e b)) (p + length (e b)) False)"
  using assms by (cases mode; cases fp) (simp_all add: dump_steps write_steps Let_def)

lemma dump_archive_stream:
  assumes "w_streams w s = Some (Plain fp d p False)" and "\<not> w_refuses w s"
    and "s \<noteq> w_next w" and "s \<noteq> Suc (w_next w)"
    and "lookup (registry env) c = Some dsc" and "d_opener dsc = ArchiveOpener e dc" and "c \<noteq> infer"
    and "pickle_dumps env obj protocol fi = Inr b"
  shows "fst (dump env obj (Stream s) c mode protocol fi ue sde kw w) = Inr () \<and>
         w_streams (snd (dump env obj (Stream s) c mode protocol fi ue sde kw w)) s =
           Some (Plain fp (overwrite d p (e (member_name env kw (Stream s)) b))
                   (p + length (e (member_name env kw (Stream s)) b)) False)"
  using assms
  by (cases mode; cases fp; cases "before_3_6 (version_info env)")
     (simp_all add: dump_steps write_steps Let_def)

lemma dump_filter_collision:
  assumes "lookup (registry env) c = Some dsc" and "d_opener dsc = FilterOpener e dc"
  shows "fst (dump env obj (Stream (w_next w)) c mode protocol fi ue sde kw w) \<noteq> Inr ()"
  using assms by (cases mode; cases "pickle_dumps env obj protocol fi")
    (simp_all add: dump_steps write_steps Let_def)

lemma dump_archive_collision:
  assumes "lookup (registry env) c = Some dsc" and "d_opener dsc = ArchiveOpener e dc"
    and "s = w_next w \<or> s = Suc (w_next w)"
  shows "fst (dump env obj (Stream s) c mode protocol fi ue sde kw w) \<noteq> Inr ()"
  using assms
  by (cases mode; cases "pickle_dumps env obj protocol fi"; cases "before_3_6 (version_info env)")
     (auto simp add: dump_steps write_steps Let_def)

lemma dump_transfer_needs_pickle:
  "pickle_dumps env obj protocol fi = Inl err \<Longrightarrow>
   fst (dump_transfer env obj io arch an mc protocol fi w) \<noteq> Inr ()"
  by (cases arch) (auto simp add: dump_transfer_def pickle_dump_def split: prod.splits sum.splits)

lemma dump_needs_pickle:
  assumes "pickle_dumps env obj protocol fi = Inl err"
  shows "fst (dump env obj path c mode protocol fi ue sde kw w) \<noteq> Inr ()"
  using dump_transfer_needs_pickle [OF assms]
  by (auto simp add: dump_def split: sum.splits prod.splits)

lemma dump_stream_success:
  assumes "dump env obj (Stream s) c mode protocol fi ue sde kw w = (Inr (), w')"
  shows "c \<noteq> infer \<and> (\<exists>dsc. lookup (registry env) c = Some dsc) \<and>
         (\<exists>b. pickle_dumps env obj protocol fi = Inr b)"
proof -
  have "c \<noteq> infer" using assms
    by (auto simp add: dump_def validate_compression_def preprocess_path_def)
  moreover from this have "lookup (registry env) c \<noteq> None" using assms
    by (cases "lookup (registry env) c") (simp_all add: dump_def validate_compression_def)
  moreover have "\<exists>b. pickle_dumps env obj protocol fi = Inr b"
    using dump_needs_pickle [of env obj protocol fi _ "Stream s" c mode ue sde kw w] assms
    by (cases "pickle_dumps env obj protocol fi") auto
  ultimately show ?thesis by auto
qed

text \<open>A stream that refuses writes makes the \<^verbatim>\<open>dump\<close> onto it raise.\<close>

lemma dump_refused:
  assumes "w_streams w s = Some (Plain fp d p False)"
    and "lookup (registry env) c = Some dsc"
  shows "w_refuses w s \<Longrightarrow> fst (dump env obj (Stream s) c mode protocol fi ue sde kw w) \<noteq> Inr ()"
proof (cases "s = w_next w \<or> s = Suc (w_next w)")
  case True
  assume "w_refuses w s"
  show ?thesis
  proof (cases "d_opener dsc")
    case RawOpener
    with assms \<open>w_refuses w s\<close> show ?thesis
      by (cases mode; cases "pickle_dumps env obj protocol fi")
         (simp_all add: dump_steps write_steps Let_def)
  next
    case (FilterOpener e dc)
    with assms \<open>w_refuses w s\<close> True show ?thesis
      by (cases mode; cases "pickle_dumps env obj protocol fi")
         (auto simp add: dump_steps write_steps Let_def)
  next
    case (ArchiveOpener e dc)
    from dump_archive_collision [OF assms(2) ArchiveOpener True] show ?thesis .
  qed
next
  case False
  assume "w_refuses w s"
  show ?thesis
  proof (cases "d_opener dsc")
    case RawOpener
    with assms \<open>w_refuses w s\<close> show ?thesis
      by (cases mode; cases "pickle_dumps env obj protocol fi")
         (simp_all add: dump_steps write_steps Let_def)
  next
    case (FilterOpener e dc)
    with assms \<open>w_refuses w s\<close> False show ?thesis
      by (cases mode; cases "pickle_dumps env obj protocol fi")
         (simp_all add: dump_steps write_steps Let_def)
  next
    case (ArchiveOpener e dc)
    with assms \<open>w_refuses w s\<close> False show ?thesis
      by (cases mode; cases "pickle_dumps env obj protocol fi";
          cases "before_3_6 (version_info env)")
         (simp_all add: dump_steps write_steps Let_def)
  qed
qed

text \<open>
  C3: for every already open stream passed as the path argument of \<^verbatim>\<open>dump\<close> with a
  concrete scheme, after \<^verbatim>\<open>dump\<close> returns the stream is still open, what was written (the
  serialized object, encoded by the scheme) sits in it from the old position on, and
  its position is right after the written data.
\<close>

theorem caller_stream_left_open:
  assumes pl: "w_streams w s = Some (Plain fp d p False)"
    and ok: "dump env obj (Stream s) c mode protocol fi ue sde kw w = (Inr (), w')"
  shows "c \<noteq> infer \<and>
         (\<exists>b out. pickle_dumps env obj protocol fi = Inr b \<and>
           encoded env c kw (Stream s) b = Some out \<and>
           w_streams w' s = Some (Plain fp (overwrite d p out) (p + length out) False)) \<and>
         is_open w' s"
proof -
  from dump_stream_success [OF ok] obtain dsc b where
    ni: "c \<noteq> infer" and reg: "lookup (registry env) c = Some dsc"
    and pk: "pickle_dumps env obj protocol fi = Inr b" by blast
  have w': "w' = snd (dump env obj (Stream s) c mode protocol fi ue sde kw w)"
    and r: "fst (dump env obj (Stream s) c mode protocol fi ue sde kw w) = Inr ()"
    using ok by simp_all
  from dump_refused [OF pl reg, of obj mode protocol fi ue sde kw] r
  have nr: "\<not> w_refuses w s" by auto
  have "\<exists>out. encoded env c kw (Stream s) b = Some out \<and>
           w_streams w' s = Some (Plain fp (overwrite d p out) (p + length out) False)"
  proof (cases "d_opener dsc")
    case RawOpener
    from dump_raw_stream [OF pl nr reg RawOpener ni pk, of mode ue sde kw] reg RawOpener w'
    show ?thesis by (simp add: encoded_def)
  next
    case (FilterOpener e dc)
    from dump_filter_collision [OF reg FilterOpener, of obj w mode protocol fi ue sde kw] r
    have "s \<noteq> w_next w" by auto
    from dump_filter_stream [OF pl nr this reg FilterOpener ni pk, of mode ue sde kw] reg
      FilterOpener w'
    show ?thesis by (simp add: encoded_def)
  next
    case (ArchiveOpener e dc)
    from dump_archive_collision [OF reg ArchiveOpener, of s w obj mode protocol fi ue sde kw] r
    have "s \<noteq> w_next w" "s \<noteq> Suc (w_next w)" by auto
    from dump_archive_stream [OF pl nr this reg ArchiveOpener ni pk, of mode ue sde kw] reg
      ArchiveOpener w'
    show ?thesis by (simp add: encoded_def)
  qed
  then obtain out where
    out: "encoded env c kw (Stream s) b = Some out"
         "w_streams w' s = Some (Plain fp (overwrite d p out) (p + length out) False)"
    by blast
  from out(2) have "is_open w' s" by (simp add: is_open_def)
  with ni pk out show ?thesis by blast
qed

text \<open>
  On the instance: the stream holds \<open>abcd\<close> and stands at position 2; after the \<^verbatim>\<open>dump\<close>
  with the gzip scheme it is open, holds \<open>ab\<close> followed by the nine encoded bytes, and
  stands at position 11.
\<close>

theorem caller_stream_left_open_witness:
  "w_streams world1 0 = Some (Plain None ''abcd'' 2 False) \<and>
   fst (dump env0 ''hello'' (Stream 0) (PyStr ''gzip'') None (-1) True Raise True [] world1)
     = Inr () \<and>
   w_streams (snd (dump env0 ''hello'' (Stream 0) (PyStr ''gzip'') None (-1) True Raise True []
                     world1)) 0
     = Some (Plain None ''abgz:Shello'' 11 False) \<and>
   is_open (snd (dump env0 ''hello'' (Stream 0) (PyStr ''gzip'') None (-1) True Raise True []
                  world1)) 0"
proof -
  define w' where
    "w' = snd (dump env0 ''hello'' (Stream 0) (PyStr ''gzip'') None (-1) True Raise True [] world1)"
  have pl: "w_streams world1 0 = Some (Plain None ''abcd'' 2 False)"
    by (simp add: world1_def)
  have f: "fst (dump env0 ''hello'' (Stream 0) (PyStr ''gzip'') None (-1) True Raise True []
                  world1) = Inr ()"
    by (simp add: facade_steps world_steps instance_steps)
  have ok: "dump env0 ''hello'' (Stream 0) (PyStr ''gzip'') None (-1) True Raise True [] world1
              = (Inr (), w')"
    unfolding w'_def using f
    by (cases "dump env0 ''hello'' (Stream 0) (PyStr ''gzip'') None (-1) True Raise True []
                 world1") simp
  from caller_stream_left_open [OF pl ok] obtain b out where
    b: "pickle_dumps env0 ''hello'' (-1) True = Inr b"
    and out: "encoded env0 (PyStr ''gzip'') [] (Stream 0) b = Some out"
    and s: "w_streams w' 0 = Some (Plain None (overwrite ''abcd'' 2 out) (2 + length out) False)"
    and o: "is_open w' 0"
    by blast
  from b have "b = ''Shello''" by (simp add: env0_def)
  with out lookup_gzip have "out = ''gz:Shello''"
    by (simp add: encoded_def gzip_d_def tag_enc_def)
  with s have "w_streams w' 0 = Some (Plain None ''abgz:Shello'' 11 False)"
    by (simp add: overwrite_def)
  with pl f o show ?thesis unfolding w'_def by blast
qed


section \<open>The round trip through bytes\<close>

text \<open>
  C1 says that \<^verbatim>\<open>loads(dumps(obj, S), S)\<close> returns the object for every registered scheme.
  The code does not do this for a compressing scheme: \<^verbatim>\<open>dumps\<close> with the gzip scheme
  returns the plain serialized bytes, and \<^verbatim>\<open>loads\<close> of these bytes with the gzip scheme
  fails, the bytes not being compressed data.
\<close>

theorem dumps_then_loads_fails_for_gzip:
  "fst (dumps env0 ''hello'' (Given (PyStr ''gzip'')) (-1) True [] world0) = Inr ''Shello'' \<and>
   fst (loads env0 ''Shello'' (Given (PyStr ''gzip'')) True ''ASCII'' ''strict'' True Raise []
          world0) = Inl CorruptDataError"
  by (simp add: facade_steps world_steps instance_steps)

end
